theory Spec2Isabelle
  imports Main "HOL-Library.Multiset"
begin

section \<open>Data model of the configuration catalog (apis/browserconfig/v1)\<close>

text \<open>
  Go pointers that may be nil are \<open>option\<close> values, Go slices are lists, and
  \<open>map[string]string\<close> is a partial function. The Kubernetes core types carry
  only the fields the controller reads; types it merely copies are wrapped
  payloads.
\<close>

record EnvVar =
  ev_Name :: string
  ev_Value :: string

record ContainerPort =
  cp_Name :: string
  cp_ContainerPort :: int
  cp_Protocol :: string
  cp_HostPort :: int

record VolumeMount =
  vm_Name :: string
  vm_MountPath :: string

datatype ResourceRequirements = ResourceRequirements "(string \<times> string) list" "(string \<times> string) list"
datatype Volume = Volume string
datatype Affinity = Affinity string
datatype Toleration = Toleration string
datatype HostAlias = HostAlias string "string list"
datatype LocalObjectReference = LocalObjectReference string
datatype PodDNSConfig = PodDNSConfig string
datatype PodSecurityContext = PodSecurityContext string

type_synonym PullPolicy = string

record Sidecar =
  sc_Name :: string
  sc_Image :: string
  sc_Command :: "string list option"
  sc_WorkingDir :: "string option"
  sc_Ports :: "ContainerPort list option"
  sc_Env :: "EnvVar list option"
  sc_VolumeMounts :: "VolumeMount list option"
  sc_ImagePullPolicy :: PullPolicy
  sc_Resources :: "ResourceRequirements option"

record Template =
  t_Labels :: "(string \<rightharpoonup> string) option"
  t_Annotations :: "(string \<rightharpoonup> string) option"
  t_Env :: "EnvVar list option"
  t_Resources :: "ResourceRequirements option"
  t_ImagePullPolicy :: PullPolicy
  t_Volumes :: "Volume list option"
  t_VolumeMounts :: "VolumeMount list option"
  t_NodeSelector :: "(string \<rightharpoonup> string) option"
  t_Affinity :: "Affinity option"
  t_Tolerations :: "Toleration list option"
  t_HostAliases :: "HostAlias list option"
  t_InitContainers :: "Sidecar list option"
  t_Sidecars :: "Sidecar list option"
  t_Privileged :: "bool option"
  t_ImagePullSecrets :: "LocalObjectReference list option"
  t_DNSConfig :: "PodDNSConfig option"
  t_SecurityContext :: "PodSecurityContext option"
  t_WorkingDir :: "string option"

record BrowserVersionConfigSpec =
  bv_Image :: string
  bv_Labels :: "(string \<rightharpoonup> string) option"
  bv_Annotations :: "(string \<rightharpoonup> string) option"
  bv_Env :: "EnvVar list option"
  bv_Resources :: "ResourceRequirements option"
  bv_ImagePullPolicy :: PullPolicy
  bv_Volumes :: "Volume list option"
  bv_VolumeMounts :: "VolumeMount list option"
  bv_NodeSelector :: "(string \<rightharpoonup> string) option"
  bv_Affinity :: "Affinity option"
  bv_Tolerations :: "Toleration list option"
  bv_HostAliases :: "HostAlias list option"
  bv_InitContainers :: "Sidecar list option"
  bv_Sidecars :: "Sidecar list option"
  bv_Privileged :: "bool option"
  bv_ImagePullSecrets :: "LocalObjectReference list option"
  bv_DNSConfig :: "PodDNSConfig option"
  bv_SecurityContext :: "PodSecurityContext option"
  bv_WorkingDir :: "string option"

text \<open>
  \<open>Browsers map[string]map[string]*BrowserVersionConfigSpec\<close>: an association
  list with one entry per key. The order of the list stands for the order in
  which one \<open>range\<close> over the Go map visits its keys.
\<close>

type_synonym Versions = "(string \<times> BrowserVersionConfigSpec option) list"

record BrowserConfigSpec =
  bcs_Template :: "Template option"
  bcs_Browsers :: "(string \<times> Versions) list"

record BrowserConfig =
  bc_Name :: string
  bc_Namespace :: string
  bc_Spec :: BrowserConfigSpec

section \<open>The merge engine\<close>

text \<open>
  Go does not fix the order in which \<open>range\<close> visits a map. A \<open>range_order\<close>
  is the order one run happens to use: it rearranges the entries of the map
  and neither drops nor invents one.
\<close>

type_synonym range_order = "EnvVar list \<Rightarrow> EnvVar list"


definition mergeMapPtr ::
  "(string \<rightharpoonup> string) option \<Rightarrow> (string \<rightharpoonup> string) option \<Rightarrow> (string \<rightharpoonup> string) option" where
  "mergeMapPtr template override =
     (if template = None \<and> override = None then None
      else Some ((case template of None \<Rightarrow> Map.empty | Some t \<Rightarrow> t) ++
                 (case override of None \<Rightarrow> Map.empty | Some ov \<Rightarrow> ov)))"

text \<open>\<open>result[env.Name] = env\<close> on the entries of a \<open>map[string]EnvVar\<close>.\<close>

fun env_put :: "EnvVar \<Rightarrow> EnvVar list \<Rightarrow> EnvVar list" where
  "env_put e [] = [e]"
| "env_put e (x # xs) = (if ev_Name x = ev_Name e then e # xs else x # env_put e xs)"

definition mergeEnvPtr ::
  "range_order \<Rightarrow> EnvVar list option \<Rightarrow> EnvVar list option \<Rightarrow> EnvVar list option" where
  "mergeEnvPtr it template override =
     (if template = None \<and> override = None then None
      else let result = fold env_put (case template of None \<Rightarrow> [] | Some t \<Rightarrow> t) [];
               result = fold env_put (case override of None \<Rightarrow> [] | Some ov \<Rightarrow> ov) result
           in Some (it result))"

definition firstNonNilResource ::
  "ResourceRequirements option \<Rightarrow> ResourceRequirements option \<Rightarrow> ResourceRequirements option" where
  "firstNonNilResource template override = (if override \<noteq> None then override else template)"

text \<open>
  \<open>mergeVolumePtr\<close>, \<open>mergeTolerationPtr\<close>, \<open>mergeHostAliasPtr\<close>,
  \<open>mergeVolumeMountsPtr\<close>, \<open>mergeLocalObjectRefPtr\<close>, \<open>mergeContainerPortPtr\<close>
  and \<open>mergeVolumeMountPtr\<close> are the same function at seven element types:
  first argument, then second argument, nil when nothing was appended.
\<close>

definition mergeAppendPtr :: "'a list option \<Rightarrow> 'a list option \<Rightarrow> 'a list option" where
  "mergeAppendPtr template override =
     (let result = (case template of None \<Rightarrow> [] | Some t \<Rightarrow> t) @
                   (case override of None \<Rightarrow> [] | Some ov \<Rightarrow> ov)
      in if length result = 0 then None else Some result)"

abbreviation mergeVolumePtr :: "Volume list option \<Rightarrow> Volume list option \<Rightarrow> Volume list option" where
  "mergeVolumePtr \<equiv> mergeAppendPtr"

abbreviation mergeTolerationPtr ::
  "Toleration list option \<Rightarrow> Toleration list option \<Rightarrow> Toleration list option" where
  "mergeTolerationPtr \<equiv> mergeAppendPtr"

abbreviation mergeHostAliasPtr ::
  "HostAlias list option \<Rightarrow> HostAlias list option \<Rightarrow> HostAlias list option" where
  "mergeHostAliasPtr \<equiv> mergeAppendPtr"

abbreviation mergeVolumeMountsPtr ::
  "VolumeMount list option \<Rightarrow> VolumeMount list option \<Rightarrow> VolumeMount list option" where
  "mergeVolumeMountsPtr \<equiv> mergeAppendPtr"

abbreviation mergeLocalObjectRefPtr ::
  "LocalObjectReference list option \<Rightarrow> LocalObjectReference list option
     \<Rightarrow> LocalObjectReference list option" where
  "mergeLocalObjectRefPtr \<equiv> mergeAppendPtr"

abbreviation mergeContainerPortPtr ::
  "ContainerPort list option \<Rightarrow> ContainerPort list option \<Rightarrow> ContainerPort list option" where
  "mergeContainerPortPtr \<equiv> mergeAppendPtr"

abbreviation mergeVolumeMountPtr ::
  "VolumeMount list option \<Rightarrow> VolumeMount list option \<Rightarrow> VolumeMount list option" where
  "mergeVolumeMountPtr \<equiv> mergeAppendPtr"

definition mergeSidecarPtr :: "Sidecar list option \<Rightarrow> Sidecar list option \<Rightarrow> Sidecar list option" where
  "mergeSidecarPtr template override =
     (case (template, override) of
        (None, None) \<Rightarrow> None
      | (Some t, None) \<Rightarrow> Some t
      | (None, Some ov) \<Rightarrow> Some ov
      | (Some t, Some ov) \<Rightarrow>
          Some (ov @ filter (\<lambda>s. sc_Name s \<notin> set (map sc_Name ov)) t))"

definition Sidecar_mergeWithTemplate :: "range_order \<Rightarrow> Sidecar \<Rightarrow> Sidecar \<Rightarrow> Sidecar" where
  "Sidecar_mergeWithTemplate it s t =
     s\<lparr> sc_Command := (if sc_Command s = None then sc_Command t else sc_Command s),
        sc_WorkingDir := sc_WorkingDir t,
        sc_Env := mergeEnvPtr it (sc_Env t) (sc_Env s),
        sc_Ports := mergeContainerPortPtr (sc_Ports t) (sc_Ports s),
        sc_VolumeMounts := mergeVolumeMountPtr (sc_VolumeMounts t) (sc_VolumeMounts s),
        sc_Resources := (if sc_Resources s = None then sc_Resources t else sc_Resources s) \<rparr>"

definition findTemplateSidecar :: "Sidecar list option \<Rightarrow> string \<Rightarrow> Sidecar option" where
  "findTemplateSidecar template name =
     (case template of None \<Rightarrow> None | Some t \<Rightarrow> find (\<lambda>s. sc_Name s = name) t)"

text \<open>
  The body of the two nested loops of \<open>mergeWithSpec\<close> for one merged entry
  \<open>s\<close>: the first original entry with the name of \<open>s\<close> ends the inner loop,
  after merging \<open>s\<close> with the template entry of that name when there is one.
\<close>

definition inheritFromTemplate ::
  "range_order \<Rightarrow> Sidecar list option \<Rightarrow> Sidecar list \<Rightarrow> Sidecar \<Rightarrow> Sidecar" where
  "inheritFromTemplate it template original s =
     (case find (\<lambda>orig. sc_Name s = sc_Name orig) original of
        None \<Rightarrow> s
      | Some orig \<Rightarrow>
          (case findTemplateSidecar template (sc_Name orig) of
             None \<Rightarrow> s
           | Some templateSidecar \<Rightarrow> Sidecar_mergeWithTemplate it s templateSidecar))"

definition inheritAll ::
  "range_order \<Rightarrow> Sidecar list option \<Rightarrow> Sidecar list option \<Rightarrow> Sidecar list option
     \<Rightarrow> Sidecar list option" where
  "inheritAll it template original merged =
     (case (original, template) of
        (Some orig, Some _) \<Rightarrow> map_option (map (inheritFromTemplate it template orig)) merged
      | _ \<Rightarrow> merged)"

text \<open>
  \<open>mergeWithSpec\<close> reads \<open>t.Template\<close> without a nil check; its only caller,
  \<open>MergeWithTemplate\<close>, has checked it, so the model takes the template itself.
  The arguments of every helper are in the order of the source.
\<close>

definition mergeWithSpec ::
  "range_order \<Rightarrow> Template \<Rightarrow> BrowserVersionConfigSpec \<Rightarrow> BrowserVersionConfigSpec" where
  "mergeWithSpec it t b =
     b\<lparr> bv_Labels := mergeMapPtr (t_Labels t) (bv_Labels b),
        bv_Annotations := mergeMapPtr (t_Annotations t) (bv_Annotations b),
        bv_Env := mergeEnvPtr it (t_Env t) (bv_Env b),
        bv_Resources := firstNonNilResource (t_Resources t) (bv_Resources b),
        bv_ImagePullPolicy :=
          (if bv_ImagePullPolicy b = [] then t_ImagePullPolicy t else bv_ImagePullPolicy b),
        bv_Volumes := mergeVolumePtr (t_Volumes t) (bv_Volumes b),
        bv_NodeSelector := mergeMapPtr (t_NodeSelector t) (bv_NodeSelector b),
        bv_Affinity := (if bv_Affinity b = None then t_Affinity t else bv_Affinity b),
        bv_Tolerations := mergeTolerationPtr (t_Tolerations t) (bv_Tolerations b),
        bv_HostAliases := mergeHostAliasPtr (t_HostAliases t) (bv_HostAliases b),
        bv_VolumeMounts := mergeVolumeMountsPtr (bv_VolumeMounts b) (t_VolumeMounts t),
        bv_Sidecars :=
          inheritAll it (t_Sidecars t) (bv_Sidecars b)
            (mergeSidecarPtr (t_Sidecars t) (bv_Sidecars b)),
        bv_InitContainers :=
          inheritAll it (t_InitContainers t) (bv_InitContainers b)
            (mergeSidecarPtr (bv_InitContainers b) (t_InitContainers t)),
        bv_Privileged := (if bv_Privileged b = None then t_Privileged t else bv_Privileged b),
        bv_ImagePullSecrets := mergeLocalObjectRefPtr (t_ImagePullSecrets t) (bv_ImagePullSecrets b),
        bv_DNSConfig := (if bv_DNSConfig b = None then t_DNSConfig t else bv_DNSConfig b),
        bv_SecurityContext :=
          (if bv_SecurityContext b = None then t_SecurityContext t else bv_SecurityContext b),
        bv_WorkingDir := (if bv_WorkingDir b = None then t_WorkingDir t else bv_WorkingDir b) \<rparr>"

definition mergeVersions :: "range_order \<Rightarrow> Template \<Rightarrow> Versions \<Rightarrow> Versions" where
  "mergeVersions it t versions =
     map (\<lambda>(version, b). (version, map_option (mergeWithSpec it t) b)) versions"

definition MergeWithTemplate :: "range_order \<Rightarrow> BrowserConfigSpec \<Rightarrow> BrowserConfigSpec" where
  "MergeWithTemplate it spec =
     (case bcs_Template spec of
        None \<Rightarrow> spec
      | Some t \<Rightarrow>
          spec\<lparr> bcs_Browsers :=
            map (\<lambda>(browserName, versions). (browserName, mergeVersions it t versions))
              (bcs_Browsers spec) \<rparr>)"

section \<open>The config store (store/browserconfig_store.go)\<close>

text \<open>
  \<open>strings.ToLower\<close> on the ASCII letters; a byte outside \<open>A\<close>..\<open>Z\<close> is kept.
\<close>

definition toLower_char :: "char \<Rightarrow> char" where
  "toLower_char c =
     (case map_of (zip ''ABCDEFGHIJKLMNOPQRSTUVWXYZ'' ''abcdefghijklmnopqrstuvwxyz'') c of
        None \<Rightarrow> c
      | Some l \<Rightarrow> l)"

definition toLower :: "string \<Rightarrow> string" where
  "toLower s = map toLower_char s"

definition keyFor :: "string \<Rightarrow> string \<Rightarrow> string \<Rightarrow> string" where
  "keyFor namespace browser version = namespace @ ''/'' @ toLower browser @ '':'' @ toLower version"

text \<open>
  The field \<open>config\<close> of the store; a stored value is a pointer and may be nil.
  The mutex, the informer cache and the logger carry no data of the claims.
\<close>

record BrowserConfigStore =
  config :: "string \<rightharpoonup> BrowserVersionConfigSpec option"

definition NewBrowserConfigStore :: BrowserConfigStore where
  "NewBrowserConfigStore = \<lparr> config = Map.empty \<rparr>"

text \<open>
  The dynamic type of an event argument (\<open>obj any\<close>): a \<open>*BrowserConfig\<close>
  (possibly a nil pointer), the tombstone \<open>DeletedFinalStateUnknown\<close> with its
  field \<open>Obj any\<close>, the nil interface, or a value of any other type.
\<close>

datatype any =
    NilInterface
  | BrowserConfigPtr "BrowserConfig option"
  | DeletedFinalStateUnknown any
  | OtherValue string

text \<open>The type switch both handlers open with; \<open>None\<close> is the \<open>default: return\<close>.\<close>

definition typeSwitch :: "any \<Rightarrow> BrowserConfig option option" where
  "typeSwitch obj =
     (case obj of
        BrowserConfigPtr t \<Rightarrow> Some t
      | DeletedFinalStateUnknown inner \<Rightarrow>
          (case inner of BrowserConfigPtr v \<Rightarrow> Some v | _ \<Rightarrow> Some None)
      | _ \<Rightarrow> None)"

definition storeVersions ::
  "string \<Rightarrow> string \<Rightarrow> Versions \<Rightarrow> (string \<rightharpoonup> BrowserVersionConfigSpec option)
     \<Rightarrow> (string \<rightharpoonup> BrowserVersionConfigSpec option)" where
  "storeVersions namespace browserName versions m =
     fold (\<lambda>(version, cfg) m. m(keyFor namespace browserName version \<mapsto> cfg)) versions m"

definition onAddOrUpdate :: "range_order \<Rightarrow> BrowserConfigStore \<Rightarrow> any \<Rightarrow> BrowserConfigStore" where
  "onAddOrUpdate it s obj =
     (case typeSwitch obj of
        None \<Rightarrow> s
      | Some None \<Rightarrow> s
      | Some (Some bc) \<Rightarrow>
          (let bcCopy = bc\<lparr> bc_Spec := MergeWithTemplate it (bc_Spec bc) \<rparr>
           in s\<lparr> config :=
                fold (\<lambda>(browserName, versions). storeVersions (bc_Namespace bcCopy) browserName versions)
                  (bcs_Browsers (bc_Spec bcCopy)) (config s) \<rparr>))"

definition deleteVersions ::
  "string \<Rightarrow> string \<Rightarrow> Versions \<Rightarrow> (string \<rightharpoonup> BrowserVersionConfigSpec option)
     \<Rightarrow> (string \<rightharpoonup> BrowserVersionConfigSpec option)" where
  "deleteVersions namespace browserName versions m =
     fold (\<lambda>(version, _) m. m(keyFor namespace browserName version := None)) versions m"

definition onDelete :: "BrowserConfigStore \<Rightarrow> any \<Rightarrow> BrowserConfigStore" where
  "onDelete s obj =
     (case typeSwitch obj of
        None \<Rightarrow> s
      | Some None \<Rightarrow> s
      | Some (Some bc) \<Rightarrow>
          s\<lparr> config :=
            fold (\<lambda>(browserName, versions). deleteVersions (bc_Namespace bc) browserName versions)
              (bcs_Browsers (bc_Spec bc)) (config s) \<rparr>)"


section \<open>Browser and Pod objects (apis/browser/v1, core/v1)\<close>

text \<open>
  A point in time and a duration are counts of nanoseconds, as in Go's
  \<open>time\<close> package, without the 64-bit bound: no claim depends on a time
  near it. The zero \<open>time.Time\<close> is the first instant of year 1.
\<close>

type_synonym Time = int
type_synonym Duration = int

definition zeroTime :: Time where
  "zeroTime = - 62135596800 * 1000000000"

definition Millisecond :: Duration where
  "Millisecond = 1000000"

definition Second :: Duration where
  "Second = 1000 * Millisecond"


text \<open>\<open>(*metav1.Time).IsZero\<close>: a nil pointer or the zero time.\<close>

definition IsZero :: "Time option \<Rightarrow> bool" where
  "IsZero t = (case t of None \<Rightarrow> True | Some x \<Rightarrow> x = zeroTime)"

type_synonym PodPhase = string



record ContainerStateWaiting =
  csw_Reason :: string
  csw_Message :: string

record ContainerStateRunning =
  csr_StartedAt :: Time

record ContainerStateTerminated =
  cst_ExitCode :: int
  cst_Reason :: string
  cst_Message :: string
  cst_StartedAt :: Time
  cst_FinishedAt :: Time

record ContainerState =
  cs_Waiting :: "ContainerStateWaiting option"
  cs_Running :: "ContainerStateRunning option"
  cs_Terminated :: "ContainerStateTerminated option"

text \<open>\<open>corev1.ContainerStatus\<close>, as far as the reconciler reads it.\<close>

record PodContainerStatus =
  pcs_Name :: string
  pcs_State :: ContainerState
  pcs_Ready :: bool
  pcs_RestartCount :: int
  pcs_Image :: string

text \<open>\<open>browserv1.ContainerPort\<close> and \<open>browserv1.ContainerStatus\<close>.\<close>

record BrowserContainerPort =
  bp_Name :: string
  bp_ContainerPort :: int
  bp_Protocol :: string
  bp_HostPort :: int

record BrowserContainerStatus =
  bst_Name :: string
  bst_State :: ContainerState
  bst_Image :: string
  bst_RestartCount :: int
  bst_Ports :: "BrowserContainerPort list"

record BrowserSpec =
  spec_BrowserName :: string
  spec_BrowserVersion :: string

record BrowserStatus =
  st_PodIP :: string
  st_Phase :: PodPhase
  st_Message :: string
  st_Reason :: string
  st_StartTime :: "Time option"
  st_ContainerStatuses :: "BrowserContainerStatus list"

record Browser =
  br_Name :: string
  br_Namespace :: string
  br_Labels :: "(string \<rightharpoonup> string) option"
  br_Annotations :: "(string \<rightharpoonup> string) option"
  br_Finalizers :: "string list"
  br_DeletionTimestamp :: "Time option"
  br_Spec :: BrowserSpec
  br_Status :: BrowserStatus

record SecurityContext =
  secctx_Privileged :: "bool option"

record Container =
  c_Name :: string
  c_Image :: string
  c_Command :: "string list"
  c_WorkingDir :: string
  c_Ports :: "ContainerPort list"
  c_Env :: "EnvVar list"
  c_Resources :: ResourceRequirements
  c_VolumeMounts :: "VolumeMount list"
  c_ImagePullPolicy :: PullPolicy
  c_SecurityContext :: "SecurityContext option"

record OwnerReference =
  or_Kind :: string
  or_Name :: string
  or_Controller :: bool
  or_BlockOwnerDeletion :: bool

record PodSpec =
  ps_InitContainers :: "Container list"
  ps_Containers :: "Container list"
  ps_Volumes :: "Volume list"
  ps_SecurityContext :: "PodSecurityContext option"
  ps_NodeSelector :: "(string \<rightharpoonup> string) option"
  ps_Affinity :: "Affinity option"
  ps_Tolerations :: "Toleration list"
  ps_HostAliases :: "HostAlias list"
  ps_ImagePullSecrets :: "LocalObjectReference list"
  ps_DNSConfig :: "PodDNSConfig option"
  ps_Hostname :: string
  ps_RestartPolicy :: string

record PodStatus =
  pst_Phase :: PodPhase
  pst_Reason :: string
  pst_Message :: string
  pst_PodIP :: string
  pst_StartTime :: "Time option"
  pst_ContainerStatuses :: "PodContainerStatus list"

record Pod =
  pod_Name :: string
  pod_Namespace :: string
  pod_Labels :: "(string \<rightharpoonup> string) option"
  pod_Annotations :: "(string \<rightharpoonup> string) option"
  pod_OwnerReferences :: "OwnerReference list"
  pod_CreationTimestamp :: Time
  pod_DeletionTimestamp :: "Time option"
  pod_Spec :: PodSpec
  pod_Status :: PodStatus

section \<open>The launch-spec synthesizer (buildBrowserPod)\<close>

definition browserContainerName :: string where
  "browserContainerName = ''browser''"


definition selenosisOptionsAnnotationKey :: string where
  "selenosisOptionsAnnotationKey = ''selenosis.io/options''"

text \<open>
  \<open>SelenosisOptions\<close>. The environment overrides of one container are a
  \<open>map[string]string\<close> that \<open>mergeEnvVars\<close> ranges over, so they are an
  association list in the order of that range.
\<close>

record SelenosisOptions =
  so_Labels :: "(string \<rightharpoonup> string) option"
  so_Containers :: "string \<rightharpoonup> (string \<times> string) list"

definition zeroResources :: ResourceRequirements where
  "zeroResources = ResourceRequirements [] []"

definition orNil :: "'a list option \<Rightarrow> 'a list" where
  "orNil p = (case p of None \<Rightarrow> [] | Some xs \<Rightarrow> xs)"

text \<open>The body of the loop over \<open>*cfg.InitContainers\<close>.\<close>

definition buildInitContainer :: "BrowserVersionConfigSpec \<Rightarrow> Sidecar \<Rightarrow> Container" where
  "buildInitContainer cfg ic =
     \<lparr> c_Name = sc_Name ic,
       c_Image = sc_Image ic,
       c_Command = orNil (sc_Command ic),
       c_WorkingDir =
         (case bv_WorkingDir cfg of
            Some wd \<Rightarrow> wd
          | None \<Rightarrow> (case sc_WorkingDir ic of Some wd \<Rightarrow> wd | None \<Rightarrow> [])),
       c_Ports = orNil (sc_Ports ic),
       c_Env = orNil (sc_Env ic),
       c_Resources = (case sc_Resources ic of None \<Rightarrow> zeroResources | Some r \<Rightarrow> r),
       c_VolumeMounts = orNil (sc_VolumeMounts ic),
       c_ImagePullPolicy = sc_ImagePullPolicy ic,
       c_SecurityContext = None \<rparr>"

text \<open>The body of the loop over \<open>*cfg.Sidecars\<close>.\<close>

definition buildSidecar :: "Sidecar \<Rightarrow> Container" where
  "buildSidecar s =
     \<lparr> c_Name = sc_Name s,
       c_Image = sc_Image s,
       c_Command = orNil (sc_Command s),
       c_WorkingDir = (case sc_WorkingDir s of Some wd \<Rightarrow> wd | None \<Rightarrow> []),
       c_Ports = orNil (sc_Ports s),
       c_Env = orNil (sc_Env s),
       c_Resources = (case sc_Resources s of None \<Rightarrow> zeroResources | Some r \<Rightarrow> r),
       c_VolumeMounts = orNil (sc_VolumeMounts s),
       c_ImagePullPolicy = sc_ImagePullPolicy s,
       c_SecurityContext = None \<rparr>"

definition buildBrowserContainer :: "BrowserVersionConfigSpec \<Rightarrow> Container" where
  "buildBrowserContainer cfg =
     \<lparr> c_Name = browserContainerName,
       c_Image = bv_Image cfg,
       c_Command = [],
       c_WorkingDir = (case bv_WorkingDir cfg of Some wd \<Rightarrow> wd | None \<Rightarrow> []),
       c_Ports = [],
       c_Env = orNil (bv_Env cfg),
       c_Resources = (case bv_Resources cfg of None \<Rightarrow> zeroResources | Some r \<Rightarrow> r),
       c_VolumeMounts = orNil (bv_VolumeMounts cfg),
       c_ImagePullPolicy = [],
       c_SecurityContext =
         (if bv_Privileged cfg = Some True then Some \<lparr> secctx_Privileged = Some True \<rparr> else None) \<rparr>"

text \<open>
  Copying a source map into a destination map that is made on first use:
  \<open>if src != nil { if dst == nil { dst = map{} }; for k, v := range src { dst[k] = v } }\<close>.
\<close>

definition copyInto ::
  "(string \<rightharpoonup> string) option \<Rightarrow> (string \<rightharpoonup> string) option \<Rightarrow> (string \<rightharpoonup> string) option" where
  "copyInto src dst =
     (case src of
        None \<Rightarrow> dst
      | Some m \<Rightarrow> Some ((case dst of None \<Rightarrow> Map.empty | Some d \<Rightarrow> d) ++ m))"

text \<open>
  The index map of \<open>mergeEnvVars\<close>: after \<open>for i := range out { idx[out[i].Name] = i }\<close>
  a name maps to the last position that holds it, and the second loop keeps
  it so.
\<close>

definition idx :: "EnvVar list \<Rightarrow> string \<Rightarrow> nat option" where
  "idx out k =
     (case filter (\<lambda>i. ev_Name (out ! i) = k) [0..<length out] of
        [] \<Rightarrow> None
      | p # ps \<Rightarrow> Some (last (p # ps)))"

definition mergeEnvVars :: "EnvVar list \<Rightarrow> (string \<times> string) list \<Rightarrow> EnvVar list" where
  "mergeEnvVars base override =
     (if length override = 0 then base
      else fold (\<lambda>(k, v) out.
                   (let ev = \<lparr> ev_Name = k, ev_Value = v \<rparr>
                    in case idx out k of Some pos \<Rightarrow> out[pos := ev] | None \<Rightarrow> out @ [ev]))
             override base)"

definition applySelenosisOptions :: "Pod \<Rightarrow> SelenosisOptions option \<Rightarrow> Pod" where
  "applySelenosisOptions pod opts =
     (case opts of
        None \<Rightarrow> pod
      | Some os \<Rightarrow>
          pod\<lparr> pod_Spec := (pod_Spec pod)\<lparr> ps_Containers :=
                  map (\<lambda>c. case so_Containers os (c_Name c) of
                              None \<Rightarrow> c
                            | Some env \<Rightarrow>
                                if length env = 0 then c
                                else c\<lparr> c_Env := mergeEnvVars (c_Env c) env \<rparr>)
                      (ps_Containers (pod_Spec pod)) \<rparr>,
               pod_Labels := copyInto (so_Labels os) (pod_Labels pod) \<rparr>)"

definition buildBrowserPod ::
  "Browser \<Rightarrow> BrowserVersionConfigSpec \<Rightarrow> SelenosisOptions option \<Rightarrow> Pod" where
  "buildBrowserPod browser cfg opts =
     applySelenosisOptions
       \<lparr> pod_Name = br_Name browser,
         pod_Namespace = br_Namespace browser,
         pod_Labels = copyInto (bv_Labels cfg) (copyInto (br_Labels browser) None),
         pod_Annotations =
           copyInto (bv_Annotations cfg)
             (copyInto (map_option (\<lambda>m. m |` (- {selenosisOptionsAnnotationKey}))
                          (br_Annotations browser)) None),
         pod_OwnerReferences =
           [\<lparr> or_Kind = ''Browser'', or_Name = br_Name browser, or_Controller = True,
              or_BlockOwnerDeletion = True \<rparr>],
         pod_CreationTimestamp = zeroTime,
         pod_DeletionTimestamp = None,
         pod_Spec =
           \<lparr> ps_InitContainers =
               (case bv_InitContainers cfg of
                  None \<Rightarrow> []
                | Some ics \<Rightarrow> map (buildInitContainer cfg) ics),
             ps_Containers =
               buildBrowserContainer cfg #
               (case bv_Sidecars cfg of None \<Rightarrow> [] | Some ss \<Rightarrow> map buildSidecar ss),
             ps_Volumes = orNil (bv_Volumes cfg),
             ps_SecurityContext = bv_SecurityContext cfg,
             ps_NodeSelector = bv_NodeSelector cfg,
             ps_Affinity = bv_Affinity cfg,
             ps_Tolerations = orNil (bv_Tolerations cfg),
             ps_HostAliases = orNil (bv_HostAliases cfg),
             ps_ImagePullSecrets = orNil (bv_ImagePullSecrets cfg),
             ps_DNSConfig = bv_DNSConfig cfg,
             ps_Hostname = br_Name browser,
             ps_RestartPolicy = ''Never'' \<rparr>,
         pod_Status =
           \<lparr> pst_Phase = [], pst_Reason = [], pst_Message = [], pst_PodIP = [],
             pst_StartTime = None, pst_ContainerStatuses = [] \<rparr> \<rparr>
       opts"

section \<open>The API server as the reconciler sees it\<close>

text \<open>
  Errors as values. The first three are the classes the reconciler tests for
  (\<open>errors.IsNotFound\<close>, \<open>errors.IsConflict\<close>, \<open>errors.IsAlreadyExists\<close>);
  \<open>OtherError\<close> is any other error, with its message.
\<close>

datatype error = NotFound | Conflict | AlreadyExists | OtherError string

text \<open>
  One reconciliation concerns the Browser of the request and the Pod of the
  same name and namespace, so the world holds these two objects, the clock,
  and what the API server will answer to the coming client calls: one entry
  per call, \<open>None\<close> to serve the call and \<open>Some e\<close> to fail it with \<open>e\<close>;
  when the list is used up every call is served. The world also counts the
  patch calls made and records the argument of every \<open>time.Sleep\<close>.
\<close>

record World =
  w_browser :: "Browser option"
  w_pod :: "Pod option"
  w_now :: Time
  w_responses :: "error option list"
  w_patches :: nat
  w_slept :: "Duration list"

definition respond :: "World \<Rightarrow> error option \<times> World" where
  "respond w =
     (case w_responses w of
        [] \<Rightarrow> (None, w)
      | r # rs \<Rightarrow> (r, w\<lparr> w_responses := rs \<rparr>))"

definition client_Get_Browser :: "World \<Rightarrow> (error + Browser) \<times> World" where
  "client_Get_Browser w =
     (case respond w of
        (Some err, w') \<Rightarrow> (Inl err, w')
      | (None, w') \<Rightarrow>
          (case w_browser w' of None \<Rightarrow> (Inl NotFound, w') | Some b \<Rightarrow> (Inr b, w')))"


text \<open>
  An object under deletion disappears when its last finalizer is removed.
\<close>

definition finishDeletion :: "Browser \<Rightarrow> Browser option" where
  "finishDeletion b =
     (if \<not> IsZero (br_DeletionTimestamp b) \<and> br_Finalizers b = [] then None else Some b)"

text \<open>
  \<open>client.Patch(current, MergeFrom(before))\<close> sends what \<open>updateFunc\<close>
  changed. \<open>Browser\<close> has a status subresource: the plain patch writes the
  metadata of \<open>current\<close> and leaves the stored status, \<open>Status().Patch\<close>
  writes the status of \<open>current\<close> and leaves the rest.
\<close>

definition applyPatch :: "bool \<Rightarrow> Browser \<Rightarrow> Browser \<Rightarrow> Browser option" where
  "applyPatch status current stored =
     (if status then Some (stored\<lparr> br_Status := br_Status current \<rparr>)
      else finishDeletion
             (stored\<lparr> br_Labels := br_Labels current,
                      br_Annotations := br_Annotations current,
                      br_Finalizers := br_Finalizers current \<rparr>))"

definition client_Patch :: "bool \<Rightarrow> Browser \<Rightarrow> World \<Rightarrow> error option \<times> World" where
  "client_Patch status current w =
     (case respond (w\<lparr> w_patches := Suc (w_patches w) \<rparr>) of
        (Some err, w') \<Rightarrow> (Some err, w')
      | (None, w') \<Rightarrow>
          (case w_browser w' of
             None \<Rightarrow> (Some NotFound, w')
           | Some stored \<Rightarrow> (None, w'\<lparr> w_browser := applyPatch status current stored \<rparr>)))"




definition time_Sleep :: "Duration \<Rightarrow> World \<Rightarrow> World" where
  "time_Sleep d w = w\<lparr> w_now := w_now w + d, w_slept := w_slept w @ [d] \<rparr>"

section \<open>The Browser reconciler (controllers/browser)\<close>

definition browserPodFinalizer :: string where
  "browserPodFinalizer = ''browserpod.selenosis.io/finalizer''"

definition maxRetries :: nat where
  "maxRetries = 5"







definition AddFinalizer :: "string \<Rightarrow> Browser \<Rightarrow> Browser" where
  "AddFinalizer f b =
     (if f \<in> set (br_Finalizers b) then b else b\<lparr> br_Finalizers := br_Finalizers b @ [f] \<rparr>)"


text \<open>
  The loop shared by \<open>retryUpdate\<close> (\<open>status = False\<close>, \<open>client.Patch\<close>) and
  \<open>retryStatusUpdate\<close> (\<open>status = True\<close>, \<open>client.Status().Patch\<close>), from
  iteration \<open>i\<close> on. The error after the last attempt is the \<open>fmt.Errorf\<close> of
  the helper.
\<close>

definition exhausted :: "bool \<Rightarrow> error" where
  "exhausted status =
     OtherError (if status then ''failed to patch Browser status after 5 attempts: version conflict''
                 else ''failed to patch Browser after 5 attempts: version conflict'')"

function retryFrom :: "bool \<Rightarrow> (Browser \<Rightarrow> Browser) \<Rightarrow> nat \<Rightarrow> World \<Rightarrow> error option \<times> World" where
  "retryFrom status updateFunc i w =
     (if i < maxRetries then
        (case client_Get_Browser w of
           (Inl err, w1) \<Rightarrow> (Some err, w1)
         | (Inr current, w1) \<Rightarrow>
             (case client_Patch status (updateFunc current) w1 of
                (None, w2) \<Rightarrow> (None, w2)
              | (Some err, w2) \<Rightarrow>
                  if err \<noteq> Conflict then (Some err, w2)
                  else retryFrom status updateFunc (i + 1)
                         (time_Sleep (Millisecond * (100 * 2 ^ i)) w2)))
      else (Some (exhausted status), w))"
  by pat_completeness auto
termination
  by (relation "measure (\<lambda>(status, updateFunc, i, w). maxRetries - i)") auto

declare retryFrom.simps [simp del]

definition retryUpdate :: "Browser \<Rightarrow> (Browser \<Rightarrow> Browser) \<Rightarrow> World \<Rightarrow> error option \<times> World" where
  "retryUpdate browser updateFunc w = retryFrom False updateFunc 0 w"

definition retryStatusUpdate ::
  "Browser \<Rightarrow> (Browser \<Rightarrow> Browser) \<Rightarrow> World \<Rightarrow> error option \<times> World" where
  "retryStatusUpdate browser updateFunc w = retryFrom True updateFunc 0 w"





















section \<open>Predicates the properties are stated with\<close>










text \<open>
  The sleep before attempt \<open>i + 1\<close>, and the answers of an API server that
  serves the read and rejects the patch of each of the next \<open>k\<close> attempts
  with a version conflict.
\<close>

definition backoff :: "nat \<Rightarrow> Duration" where
  "backoff i = Millisecond * (100 * 2 ^ i)"

definition conflicts :: "nat \<Rightarrow> error option list" where
  "conflicts k = concat (replicate k [None, Some Conflict])"

text \<open>Either retry helper: \<open>retryStatusUpdate\<close> when \<open>status\<close>, else \<open>retryUpdate\<close>.\<close>

definition retryHelper ::
  "bool \<Rightarrow> Browser \<Rightarrow> (Browser \<Rightarrow> Browser) \<Rightarrow> World \<Rightarrow> error option \<times> World" where
  "retryHelper status browser updateFunc w =
     (if status then retryStatusUpdate browser updateFunc w else retryUpdate browser updateFunc w)"









section \<open>Example inputs\<close>

text \<open>
  Go composite literals leave every field they do not name at its zero value:
  \<open>Sidecar{Name: n, Image: i}\<close>, \<open>Template{}\<close> and
  \<open>BrowserVersionConfigSpec{Image: i}\<close>.
\<close>

definition mkSidecar :: "string \<Rightarrow> string \<Rightarrow> Sidecar" where
  "mkSidecar name img =
     \<lparr> sc_Name = name, sc_Image = img, sc_Command = None, sc_WorkingDir = None, sc_Ports = None,
       sc_Env = None, sc_VolumeMounts = None, sc_ImagePullPolicy = [], sc_Resources = None \<rparr>"

definition emptyTemplate :: Template where
  "emptyTemplate =
     \<lparr> t_Labels = None, t_Annotations = None, t_Env = None, t_Resources = None,
       t_ImagePullPolicy = [], t_Volumes = None, t_VolumeMounts = None, t_NodeSelector = None,
       t_Affinity = None, t_Tolerations = None, t_HostAliases = None, t_InitContainers = None,
       t_Sidecars = None, t_Privileged = None, t_ImagePullSecrets = None, t_DNSConfig = None,
       t_SecurityContext = None, t_WorkingDir = None \<rparr>"

definition imageOnly :: "string \<Rightarrow> BrowserVersionConfigSpec" where
  "imageOnly img =
     \<lparr> bv_Image = img, bv_Labels = None, bv_Annotations = None, bv_Env = None, bv_Resources = None,
       bv_ImagePullPolicy = [], bv_Volumes = None, bv_VolumeMounts = None, bv_NodeSelector = None,
       bv_Affinity = None, bv_Tolerations = None, bv_HostAliases = None, bv_InitContainers = None,
       bv_Sidecars = None, bv_Privileged = None, bv_ImagePullSecrets = None, bv_DNSConfig = None,
       bv_SecurityContext = None, bv_WorkingDir = None \<rparr>"



text \<open>
  A freshly created Browser, a world around it at some instant, and a Pod that
  has been waiting in \<open>ContainerCreating\<close> for one second more than five
  minutes at that instant.
\<close>

definition ex_browser :: Browser where
  "ex_browser =
     \<lparr> br_Name = ''b1'', br_Namespace = ''ns'', br_Labels = None, br_Annotations = None,
       br_Finalizers = [], br_DeletionTimestamp = None,
       br_Spec = \<lparr> spec_BrowserName = ''chrome'', spec_BrowserVersion = ''120'' \<rparr>,
       br_Status = \<lparr> st_PodIP = [], st_Phase = [], st_Message = [], st_Reason = [],
                     st_StartTime = None, st_ContainerStatuses = [] \<rparr> \<rparr>"

definition ex_world :: "Browser option \<Rightarrow> Pod option \<Rightarrow> error option list \<Rightarrow> World" where
  "ex_world b p rs =
     \<lparr> w_browser = b, w_pod = p, w_now = 1700000000 * Second, w_responses = rs, w_patches = 0,
       w_slept = [] \<rparr>"



section \<open>Properties of the merge engine\<close>

lemmas merge_defs =
  mergeWithSpec_def mergeSidecarPtr_def inheritAll_def inheritFromTemplate_def
  findTemplateSidecar_def Sidecar_mergeWithTemplate_def mergeEnvPtr_def mergeAppendPtr_def
  mergeMapPtr_def firstNonNilResource_def

lemmas example_defs = mkSidecar_def emptyTemplate_def imageOnly_def

text \<open>
  C1. An init container named in both the template and the override should be
  the override's entry after the merge. \<open>mergeWithSpec\<close> passes the two lists
  to \<open>mergeSidecarPtr\<close> in the opposite order to the one it uses for sidecars,
  so the template's entry is the one that survives: with the template entry
  \<open>shared-init\<close> at image \<open>template-init\<close> and the override entry
  \<open>shared-init\<close> at image \<open>override-init\<close>, the merged list is the single
  entry at image \<open>template-init\<close>, whatever order the maps are ranged in.
\<close>

theorem init_container_collision_keeps_template_entry:
  "bv_InitContainers
     (mergeWithSpec it
        (emptyTemplate\<lparr> t_InitContainers := Some [mkSidecar ''shared-init'' ''template-init''] \<rparr>)
        ((imageOnly ''browser'')
           \<lparr> bv_InitContainers := Some [mkSidecar ''shared-init'' ''override-init''] \<rparr>))
   = Some [mkSidecar ''shared-init'' ''template-init'']"
  by (simp add: merge_defs example_defs)

text \<open>
  C2. A sidecar named in both lists should keep the working directory its
  override sets. \<open>Sidecar.mergeWithTemplate\<close> guards the command and the
  resources with a nil check and assigns the working directory without one:
  the override entry \<open>logger\<close> with working directory \<open>/override-dir\<close>
  comes out of the merge with the template's \<open>/template-dir\<close>.
\<close>

theorem sidecar_working_dir_overwritten_by_template:
  "bv_Sidecars
     (mergeWithSpec it
        (emptyTemplate\<lparr> t_Sidecars :=
           Some [(mkSidecar ''logger'' ''logger:1.0'')\<lparr> sc_WorkingDir := Some ''/template-dir'' \<rparr>] \<rparr>)
        ((imageOnly ''browser'')\<lparr> bv_Sidecars :=
           Some [(mkSidecar ''logger'' ''logger:2.0'')\<lparr> sc_WorkingDir := Some ''/override-dir'' \<rparr>] \<rparr>))
   = Some [(mkSidecar ''logger'' ''logger:2.0'')\<lparr> sc_WorkingDir := Some ''/template-dir'' \<rparr>]"
  by (simp add: merge_defs example_defs)














section \<open>Properties of the config store\<close>

text \<open>
  C10. The two event handlers of the store are total. Given an argument that
  carries no BrowserConfig (a value of another type, the nil interface, a nil
  pointer, or a tombstone around any of these), each returns with the store's
  map exactly as it was.
\<close>

theorem handlers_ignore_objects_without_config:
  assumes "\<forall>bc. obj \<noteq> BrowserConfigPtr (Some bc) \<and>
                obj \<noteq> DeletedFinalStateUnknown (BrowserConfigPtr (Some bc))"
  shows "onAddOrUpdate it s obj = s \<and> onDelete s obj = s"
  using assms
  by (auto simp: onAddOrUpdate_def onDelete_def typeSwitch_def split: any.splits option.splits)

theorem handlers_ignore_objects_without_config_witness:
  "(onAddOrUpdate id NewBrowserConfigStore (OtherValue ''not a BrowserConfig'') = NewBrowserConfigStore
    \<and> onDelete NewBrowserConfigStore (OtherValue ''not a BrowserConfig'') = NewBrowserConfigStore)
   \<and> (onAddOrUpdate id NewBrowserConfigStore (DeletedFinalStateUnknown NilInterface)
        = NewBrowserConfigStore
    \<and> onDelete NewBrowserConfigStore (DeletedFinalStateUnknown NilInterface) = NewBrowserConfigStore)"
  using handlers_ignore_objects_without_config
          [of "OtherValue ''not a BrowserConfig''" id NewBrowserConfigStore]
        handlers_ignore_objects_without_config
          [of "DeletedFinalStateUnknown NilInterface" id NewBrowserConfigStore]
  by simp










section \<open>Properties of the launch-spec synthesizer\<close>

text \<open>
  C6. An init container or sidecar without a working directory of its own
  should get the top-level one, and one with its own should keep it. In
  \<open>buildBrowserPod\<close> the loop over init containers tests the top-level
  working directory first, so it replaces a container's own; the loop over
  sidecars has no fallback at all. With the top-level directory \<open>/top\<close>, an
  init container set to \<open>/init-own\<close> and a sidecar with none, the init
  container runs in \<open>/top\<close> and the sidecar (second in the container list,
  after the browser) in the empty directory.
\<close>

theorem working_dir_of_init_containers_and_sidecars:
  "map c_WorkingDir
     (ps_InitContainers (pod_Spec (buildBrowserPod browser
        ((imageOnly ''browser'')
           \<lparr> bv_WorkingDir := Some ''/top'',
             bv_InitContainers := Some [(mkSidecar ''init'' ''img'')\<lparr> sc_WorkingDir := Some ''/init-own'' \<rparr>],
             bv_Sidecars := Some [mkSidecar ''seleniferous'' ''sidecar''] \<rparr>) None)))
     = [''/top'']
   \<and> map c_WorkingDir
     (ps_Containers (pod_Spec (buildBrowserPod browser
        ((imageOnly ''browser'')
           \<lparr> bv_WorkingDir := Some ''/top'',
             bv_InitContainers := Some [(mkSidecar ''init'' ''img'')\<lparr> sc_WorkingDir := Some ''/init-own'' \<rparr>],
             bv_Sidecars := Some [mkSidecar ''seleniferous'' ''sidecar''] \<rparr>) None)))
     = [''/top'', []]"
  by (simp add: buildBrowserPod_def applySelenosisOptions_def buildInitContainer_def buildSidecar_def
      buildBrowserContainer_def mkSidecar_def emptyTemplate_def imageOnly_def)

section \<open>Properties of the retry helpers\<close>

lemma retry_conflict_step:
  assumes "w_browser w = Some b" "w_responses w = None # Some Conflict # rs" "i < maxRetries"
  shows "retryFrom st f i w =
           retryFrom st f (Suc i)
             (w\<lparr> w_responses := rs, w_patches := Suc (w_patches w),
                w_now := w_now w + backoff i, w_slept := w_slept w @ [backoff i] \<rparr>)"
proof -
  have "retryFrom st f i w =
          retryFrom st f (Suc i)
            (time_Sleep (backoff i) (w\<lparr> w_patches := Suc (w_patches w), w_responses := rs \<rparr>))"
    using assms
    by (subst retryFrom.simps)
       (simp add: client_Get_Browser_def client_Patch_def respond_def backoff_def)
  moreover have "time_Sleep (backoff i) (w\<lparr> w_patches := Suc (w_patches w), w_responses := rs \<rparr>)
      = w\<lparr> w_responses := rs, w_patches := Suc (w_patches w),
           w_now := w_now w + backoff i, w_slept := w_slept w @ [backoff i] \<rparr>"
    by (rule World.equality) (simp_all add: time_Sleep_def)
  ultimately show ?thesis by simp
qed

lemma retry_conflicts:
  assumes "w_browser w = Some b" "w_responses w = conflicts k @ rest" "i + k \<le> maxRetries"
  shows "retryFrom st f i w =
           retryFrom st f (i + k)
             (w\<lparr> w_responses := rest, w_patches := w_patches w + k,
                w_now := w_now w + sum_list (map backoff [i..<i + k]),
                w_slept := w_slept w @ map backoff [i..<i + k] \<rparr>)"
  using assms
proof (induction k arbitrary: i w)
  case 0
  have "w\<lparr> w_responses := rest, w_patches := w_patches w + 0,
           w_now := w_now w + sum_list (map backoff [i..<i + 0]),
           w_slept := w_slept w @ map backoff [i..<i + 0] \<rparr> = w"
    using 0 by (intro World.equality) (simp_all add: conflicts_def)
  then show ?case by simp
next
  case (Suc k)
  let ?w1 = "w\<lparr> w_responses := conflicts k @ rest, w_patches := Suc (w_patches w),
                w_now := w_now w + backoff i, w_slept := w_slept w @ [backoff i] \<rparr>"
  have step: "retryFrom st f i w = retryFrom st f (Suc i) ?w1"
    using Suc.prems by (intro retry_conflict_step) (simp_all add: conflicts_def)
  have "retryFrom st f (Suc i) ?w1 =
          retryFrom st f (Suc i + k)
            (?w1\<lparr> w_responses := rest, w_patches := w_patches ?w1 + k,
                 w_now := w_now ?w1 + sum_list (map backoff [Suc i..<Suc i + k]),
                 w_slept := w_slept ?w1 @ map backoff [Suc i..<Suc i + k] \<rparr>)"
    using Suc.prems by (intro Suc.IH) simp_all
  moreover have "?w1\<lparr> w_responses := rest, w_patches := w_patches ?w1 + k,
                 w_now := w_now ?w1 + sum_list (map backoff [Suc i..<Suc i + k]),
                 w_slept := w_slept ?w1 @ map backoff [Suc i..<Suc i + k] \<rparr>
      = w\<lparr> w_responses := rest, w_patches := w_patches w + Suc k,
           w_now := w_now w + sum_list (map backoff [i..<i + Suc k]),
           w_slept := w_slept w @ map backoff [i..<i + Suc k] \<rparr>"
  proof -
    have upt: "[i..<i + Suc k] = i # [Suc i..<Suc i + k]"
      by (simp add: upt_conv_Cons)
    show ?thesis
      by (rule World.equality) (unfold upt, simp_all)
  qed
  ultimately show ?case
    using step by simp
qed

lemma retry_served:
  assumes "w_browser w = Some b" "w_responses w = [] \<or> (\<exists>rs. w_responses w = None # None # rs)"
    "i < maxRetries"
  shows "retryFrom st f i w =
           (None, w\<lparr> w_responses := drop 2 (w_responses w), w_patches := Suc (w_patches w),
                     w_browser := applyPatch st (f b) b \<rparr>)"
  using assms
  by (subst retryFrom.simps)
     (auto simp: client_Get_Browser_def client_Patch_def respond_def)

lemma retry_patch_error:
  assumes "w_browser w = Some b" "w_responses w = None # Some e # rs" "e \<noteq> Conflict"
    "i < maxRetries"
  shows "retryFrom st f i w =
           (Some e, w\<lparr> w_responses := rs, w_patches := Suc (w_patches w) \<rparr>)"
  using assms
  by (subst retryFrom.simps)
     (auto simp: client_Get_Browser_def client_Patch_def respond_def)

lemma retry_get_error:
  assumes "w_responses w = Some e # rs" "i < maxRetries"
  shows "retryFrom st f i w = (Some e, w\<lparr> w_responses := rs \<rparr>)"
  using assms
  by (subst retryFrom.simps)
     (auto simp: client_Get_Browser_def client_Patch_def respond_def)

lemma retry_attempts_bounded:
  "w_patches (snd (retryFrom st f i w)) \<le> w_patches w + (maxRetries - i)"
proof (induction st f i w rule: retryFrom.induct)
  case (1 status updateFunc i w)
  show ?case
  proof (cases "i < maxRetries")
    case False
    then show ?thesis by (subst retryFrom.simps) simp
  next
    case True
    show ?thesis
    proof (cases "client_Get_Browser w")
      case (Pair g w1)
      have p1: "w_patches w1 = w_patches w"
        using Pair by (auto simp: client_Get_Browser_def respond_def split: list.splits option.splits)
      show ?thesis
      proof (cases g)
        case (Inl err)
        then show ?thesis using Pair True p1 by (subst retryFrom.simps) simp
      next
        case (Inr current)
        show ?thesis
        proof (cases "client_Patch status (updateFunc current) w1")
          case (Pair r w2)
          have p2: "w_patches w2 = Suc (w_patches w1)"
            using Pair by (auto simp: client_Patch_def respond_def split: list.splits option.splits)
          show ?thesis
          proof (cases "r = Some Conflict")
            case False
            then show ?thesis
              using \<open>client_Get_Browser w = (g, w1)\<close> Inr Pair True p1 p2
              by (subst retryFrom.simps) (cases r; simp)
          next
            case c: True
            have "w_patches (snd (retryFrom status updateFunc (i + 1)
                     (time_Sleep (Millisecond * (100 * 2 ^ i)) w2)))
                    \<le> w_patches (time_Sleep (Millisecond * (100 * 2 ^ i)) w2) + (maxRetries - (i + 1))"
              using "1.IH" [OF True _ Inr _ _ _] \<open>client_Get_Browser w = (g, w1)\<close> Inr Pair c
              by simp
            then show ?thesis
              using \<open>client_Get_Browser w = (g, w1)\<close> Inr Pair True p1 p2 c
              by (subst retryFrom.simps) (simp add: time_Sleep_def)
          qed
        qed
      qed
    qed
  qed
qed

lemma retryHelper_eq: "retryHelper st br f w = retryFrom st f 0 w"
  by (simp add: retryHelper_def retryUpdate_def retryStatusUpdate_def)

lemma conflicts_split: "n \<le> k \<Longrightarrow> conflicts k = conflicts n @ conflicts (k - n)"
  by (simp add: conflicts_def flip: concat_append replicate_add)

lemma retry_exhausted:
  assumes "w_browser w = Some b" "w_responses w = conflicts k @ rest" "maxRetries \<le> k"
  shows "retryFrom st f 0 w =
           (Some (exhausted st),
            w\<lparr> w_responses := conflicts (k - maxRetries) @ rest,
               w_patches := w_patches w + maxRetries,
               w_now := w_now w + sum_list (map backoff [0..<0 + maxRetries]),
               w_slept := w_slept w @ map backoff [0..<0 + maxRetries] \<rparr>)"
proof -
  have "w_responses w = conflicts maxRetries @ (conflicts (k - maxRetries) @ rest)"
    using assms(2,3) conflicts_split [of maxRetries k] by simp
  from retry_conflicts [OF assms(1) this, of 0 st f]
  have "retryFrom st f 0 w =
          retryFrom st f (0 + maxRetries)
            (w\<lparr> w_responses := conflicts (k - maxRetries) @ rest,
               w_patches := w_patches w + maxRetries,
               w_now := w_now w + sum_list (map backoff [0..<0 + maxRetries]),
               w_slept := w_slept w @ map backoff [0..<0 + maxRetries] \<rparr>)"
    by simp
  also have "\<dots> = (Some (exhausted st),
            w\<lparr> w_responses := conflicts (k - maxRetries) @ rest,
               w_patches := w_patches w + maxRetries,
               w_now := w_now w + sum_list (map backoff [0..<0 + maxRetries]),
               w_slept := w_slept w @ map backoff [0..<0 + maxRetries] \<rparr>)"
    by (subst retryFrom.simps) simp
  finally show ?thesis .
qed

text \<open>
  C7. Both retry helpers make at most five patch attempts. When the API
  server rejects the first \<open>k\<close> patches with a version conflict, the helper
  sleeps 100ms, 200ms, 400ms, ... after them and then: with \<open>k\<close> at least
  five it returns the exhaustion error after five attempts, the Browser
  untouched; with fewer and the next attempt served it succeeds on attempt
  \<open>k + 1\<close> and the stored Browser is the patched one; with fewer and
  another error, from the patch or from the read, it returns that error at
  once and makes no further attempt.
\<close>

theorem retry_helpers_retry_on_conflict_only:
  assumes "w_browser w = Some b" "w_responses w = conflicts k @ rest"
  shows "w_patches (snd (retryHelper st browser f w)) \<le> w_patches w + maxRetries
    \<and> (maxRetries \<le> k \<longrightarrow>
         fst (retryHelper st browser f w) = Some (exhausted st)
         \<and> w_patches (snd (retryHelper st browser f w)) = w_patches w + maxRetries
         \<and> w_slept (snd (retryHelper st browser f w)) = w_slept w @ map backoff [0..<maxRetries]
         \<and> w_browser (snd (retryHelper st browser f w)) = Some b)
    \<and> (k < maxRetries \<and> (rest = [] \<or> (\<exists>rs. rest = None # None # rs)) \<longrightarrow>
         fst (retryHelper st browser f w) = None
         \<and> w_patches (snd (retryHelper st browser f w)) = w_patches w + Suc k
         \<and> w_slept (snd (retryHelper st browser f w)) = w_slept w @ map backoff [0..<k]
         \<and> w_browser (snd (retryHelper st browser f w)) = applyPatch st (f b) b)
    \<and> (\<forall>e rs. k < maxRetries \<and> rest = None # Some e # rs \<and> e \<noteq> Conflict \<longrightarrow>
         fst (retryHelper st browser f w) = Some e
         \<and> w_patches (snd (retryHelper st browser f w)) = w_patches w + Suc k
         \<and> w_slept (snd (retryHelper st browser f w)) = w_slept w @ map backoff [0..<k]
         \<and> w_browser (snd (retryHelper st browser f w)) = Some b)
    \<and> (\<forall>e rs. k < maxRetries \<and> rest = Some e # rs \<longrightarrow>
         fst (retryHelper st browser f w) = Some e
         \<and> w_patches (snd (retryHelper st browser f w)) = w_patches w + k
         \<and> w_slept (snd (retryHelper st browser f w)) = w_slept w @ map backoff [0..<k]
         \<and> w_browser (snd (retryHelper st browser f w)) = Some b)"
proof -
  let ?wk = "w\<lparr> w_responses := rest, w_patches := w_patches w + k,
                w_now := w_now w + sum_list (map backoff [0..<0 + k]),
                w_slept := w_slept w @ map backoff [0..<0 + k] \<rparr>"
  have bound: "w_patches (snd (retryHelper st browser f w)) \<le> w_patches w + maxRetries"
    using retry_attempts_bounded [of st f 0 w] by (simp add: retryHelper_eq)
  have ex: "maxRetries \<le> k \<Longrightarrow> retryHelper st browser f w =
           (Some (exhausted st),
            w\<lparr> w_responses := conflicts (k - maxRetries) @ rest,
               w_patches := w_patches w + maxRetries,
               w_now := w_now w + sum_list (map backoff [0..<0 + maxRetries]),
               w_slept := w_slept w @ map backoff [0..<0 + maxRetries] \<rparr>)"
    using retry_exhausted [OF assms] by (simp add: retryHelper_eq)
  have after: "k < maxRetries \<Longrightarrow> retryHelper st browser f w = retryFrom st f k ?wk"
    using retry_conflicts [OF assms, of 0 st f] by (simp add: retryHelper_eq)
  have wk: "w_browser ?wk = Some b" "w_responses ?wk = rest"
    using assms(1) by simp_all
  have ok: "k < maxRetries \<Longrightarrow> rest = [] \<or> (\<exists>rs. rest = None # None # rs) \<Longrightarrow>
      retryHelper st browser f w =
        (None, ?wk\<lparr> w_responses := drop 2 (w_responses ?wk), w_patches := Suc (w_patches ?wk),
                    w_browser := applyPatch st (f b) b \<rparr>)"
    using after retry_served [OF wk(1), of k st f] wk(2) by simp
  have perr: "k < maxRetries \<Longrightarrow> rest = None # Some e # rs \<Longrightarrow> e \<noteq> Conflict \<Longrightarrow>
      retryHelper st browser f w =
        (Some e, ?wk\<lparr> w_responses := rs, w_patches := Suc (w_patches ?wk) \<rparr>)" for e rs
    using after retry_patch_error [OF wk(1), of e rs k st f] wk(2) by simp
  have gerr: "k < maxRetries \<Longrightarrow> rest = Some e # rs \<Longrightarrow>
      retryHelper st browser f w = (Some e, ?wk\<lparr> w_responses := rs \<rparr>)" for e rs
    using after retry_get_error [of ?wk e rs k st f] wk(2) by simp
  show ?thesis
  proof (intro conjI impI allI)
    show "w_patches (snd (retryHelper st browser f w)) \<le> w_patches w + maxRetries"
      by (rule bound)
  qed (use ex ok perr gerr assms(1) in \<open>simp_all\<close>)
qed

theorem retry_helpers_retry_on_conflict_only_witness:
  "w_responses (ex_world (Some ex_browser) None [None, Some Conflict, None, Some Conflict])
     = conflicts 2 @ []
   \<and> fst (retryHelper False ex_browser (AddFinalizer browserPodFinalizer)
        (ex_world (Some ex_browser) None [None, Some Conflict, None, Some Conflict])) = None
   \<and> w_patches (snd (retryHelper False ex_browser (AddFinalizer browserPodFinalizer)
        (ex_world (Some ex_browser) None [None, Some Conflict, None, Some Conflict]))) = 3
   \<and> w_slept (snd (retryHelper False ex_browser (AddFinalizer browserPodFinalizer)
        (ex_world (Some ex_browser) None [None, Some Conflict, None, Some Conflict])))
       = [100 * Millisecond, 200 * Millisecond]
   \<and> w_browser (snd (retryHelper False ex_browser (AddFinalizer browserPodFinalizer)
        (ex_world (Some ex_browser) None [None, Some Conflict, None, Some Conflict])))
       = Some (ex_browser\<lparr> br_Finalizers := [browserPodFinalizer] \<rparr>)"
  using retry_helpers_retry_on_conflict_only
          [of "ex_world (Some ex_browser) None [None, Some Conflict, None, Some Conflict]"
              ex_browser 2 "[]" False ex_browser "AddFinalizer browserPodFinalizer"]
  by (simp add: ex_world_def ex_browser_def conflicts_def maxRetries_def backoff_def
      applyPatch_def finishDeletion_def AddFinalizer_def IsZero_def eval_nat_numeral upt_conv_Cons)

section \<open>Properties of the Browser reconciler\<close>
















section \<open>The finalizer and the Pod\<close>



















end
